theory Spec2Isabelle
  imports Main "HOL-Library.Sublist"
begin

section \<open>The UniRoute basic chat example (examples/basic-chat-python/main.py)\<close>

text \<open>
  The program is one function, \<^verbatim>\<open>main\<close>: it reads two environment variables, sends one
  HTTP request with the \<^verbatim>\<open>requests\<close> library, and prints what comes back. The embedding
  makes everything \<^verbatim>\<open>main\<close> reads from outside itself an argument (the record
  \<open>world\<close>) and everything it does a result (the record \<open>run\<close>: the lines printed,
  the requests sent, how the process ended).

  Python strings are modelled as their UTF-8 byte sequences (\<open>string\<close> is a list of
  8-bit characters), which is what reaches stdout. The tests the program makes on strings
  (emptiness, an ASCII substring) give the same answer on code points and on UTF-8 bytes.
\<close>

subsection \<open>Python values obtained from JSON\<close>

text \<open>
  What \<^verbatim>\<open>response.json()\<close> can return. A dict is kept as the list of its items, in
  insertion order (the order \<^verbatim>\<open>repr\<close> shows). A float is kept as its \<^verbatim>\<open>repr\<close> text: the
  program never computes with one, it can only print it.
\<close>

datatype json =
    JNull
  | JBool bool
  | JInt int
  | JFloat string
  | JStr string
  | JList "json list"
  | JDict "(string \<times> json) list"

text \<open>The exceptions the program can raise and does not catch.\<close>

datatype py_exception = TypeError | AttributeError | KeyError | IndexError

text \<open>Sequencing of steps that may raise: the first exception ends the sequence.\<close>

definition and_then :: "py_exception + 'a \<Rightarrow> ('a \<Rightarrow> py_exception + 'b) \<Rightarrow> py_exception + 'b" where
  "and_then r f = (case r of Inl ex \<Rightarrow> Inl ex | Inr v \<Rightarrow> f v)"

subsection \<open>Strings\<close>

text \<open>\<^verbatim>\<open>needle in hay\<close> on two strings: \<open>needle\<close> occurs in \<open>hay\<close> as a contiguous run.\<close>

fun str_contains :: "string \<Rightarrow> string \<Rightarrow> bool" where
  "str_contains needle [] = (needle = [])"
| "str_contains needle (c # cs) = (prefix needle (c # cs) \<or> str_contains needle cs)"

text \<open>
  The code points of a string: a code point starts at every byte that is not a UTF-8
  continuation byte (\<open>10xxxxxx\<close>).
\<close>

definition is_continuation :: "char \<Rightarrow> bool" where
  "is_continuation c = (128 \<le> (of_char c :: nat) \<and> (of_char c :: nat) < 192)"

function codepoints :: "string \<Rightarrow> string list" where
  "codepoints [] = []"
| "codepoints (c # cs) =
     (c # takeWhile is_continuation cs) # codepoints (dropWhile is_continuation cs)"
  by pat_completeness auto
termination
  by (relation "measure length") (auto simp: length_dropWhile_le less_Suc_eq_le)

text \<open>\<^verbatim>\<open>str(n)\<close> for an integer: decimal digits, a minus sign for a negative number.\<close>

definition digit_char :: "nat \<Rightarrow> char" where
  "digit_char d = ''0123456789'' ! d"

function str_nat :: "nat \<Rightarrow> string" where
  "str_nat n = (if n < 10 then [digit_char n] else str_nat (n div 10) @ [digit_char (n mod 10)])"
  by pat_completeness auto
termination
  by (relation "measure id") auto

declare str_nat.simps [simp del]

definition str_int :: "int \<Rightarrow> string" where
  "str_int i = (if i < 0 then CHR ''-'' # str_nat (nat (- i)) else str_nat (nat i))"

text \<open>\<^verbatim>\<open>sep.join(xs)\<close>.\<close>

fun str_join :: "string \<Rightarrow> string list \<Rightarrow> string" where
  "str_join sep [] = []"
| "str_join sep [x] = x"
| "str_join sep (x # y # ys) = x @ sep @ str_join sep (y # ys)"

text \<open>
  \<^verbatim>\<open>repr(v)\<close>. The \<^verbatim>\<open>repr\<close> of a string (its quoting and escaping) is the interpreter's and
  is taken as the argument \<open>rs\<close>.
\<close>

fun py_repr :: "(string \<Rightarrow> string) \<Rightarrow> json \<Rightarrow> string" where
  "py_repr rs JNull = ''None''"
| "py_repr rs (JBool b) = (if b then ''True'' else ''False'')"
| "py_repr rs (JInt i) = str_int i"
| "py_repr rs (JFloat r) = r"
| "py_repr rs (JStr s) = rs s"
| "py_repr rs (JList xs) = ''['' @ str_join '', '' (map (py_repr rs) xs) @ '']''"
| "py_repr rs (JDict kvs) =
     ''{'' @ str_join '', '' (map (\<lambda>kv. rs (fst kv) @ '': '' @ py_repr rs (snd kv)) kvs) @ ''}''"

text \<open>A replacement field \<^verbatim>\<open>{v}\<close> of an f-string: \<^verbatim>\<open>format(v, "")\<close>, which is \<^verbatim>\<open>str(v)\<close>.\<close>

fun format_value :: "(string \<Rightarrow> string) \<Rightarrow> json \<Rightarrow> string" where
  "format_value rs (JStr s) = s"
| "format_value rs v = py_repr rs v"

subsection \<open>The operations the program applies to the decoded response\<close>

text \<open>\<^verbatim>\<open>key in obj\<close> for a string \<open>key\<close>: a key of a dict, an element of a list, a substring
  of a string; any other value is not iterable.\<close>

fun py_contains :: "json \<Rightarrow> string \<Rightarrow> py_exception + bool" where
  "py_contains (JDict kvs) k = Inr (map_of kvs k \<noteq> None)"
| "py_contains (JList xs) k = Inr (JStr k \<in> set xs)"
| "py_contains (JStr s) k = Inr (str_contains k s)"
| "py_contains v k = Inl TypeError"

text \<open>\<^verbatim>\<open>obj[key]\<close> for a string \<open>key\<close>: only a dict can be indexed by a string.\<close>

fun subscript_str :: "json \<Rightarrow> string \<Rightarrow> py_exception + json" where
  "subscript_str (JDict kvs) k = (case map_of kvs k of None \<Rightarrow> Inl KeyError | Some v \<Rightarrow> Inr v)"
| "subscript_str v k = Inl TypeError"

text \<open>\<^verbatim>\<open>len(obj)\<close>.\<close>

fun py_len :: "json \<Rightarrow> py_exception + nat" where
  "py_len (JList xs) = Inr (length xs)"
| "py_len (JDict kvs) = Inr (length kvs)"
| "py_len (JStr s) = Inr (length (codepoints s))"
| "py_len v = Inl TypeError"

text \<open>\<^verbatim>\<open>xs[i]\<close> on a sequence of length \<open>n\<close>: a negative index counts from the end.\<close>

definition seq_index :: "'a list \<Rightarrow> int \<Rightarrow> py_exception + 'a" where
  "seq_index xs i =
     (if 0 \<le> i \<and> i < int (length xs) then Inr (xs ! nat i)
      else if i < 0 \<and> - int (length xs) \<le> i then Inr (xs ! nat (int (length xs) + i))
      else Inl IndexError)"

text \<open>\<^verbatim>\<open>obj[i]\<close> for an integer \<open>i\<close>. The keys of a decoded JSON object are strings, so
  an integer is never a key of a dict.\<close>

fun subscript_int :: "json \<Rightarrow> int \<Rightarrow> py_exception + json" where
  "subscript_int (JList xs) i = seq_index xs i"
| "subscript_int (JStr s) i = and_then (seq_index (codepoints s) i) (\<lambda>c. Inr (JStr c))"
| "subscript_int (JDict kvs) i = Inl KeyError"
| "subscript_int v i = Inl TypeError"

text \<open>\<^verbatim>\<open>obj.get(key, default)\<close>: a method of dicts only.\<close>

fun py_get :: "json \<Rightarrow> string \<Rightarrow> json \<Rightarrow> py_exception + json" where
  "py_get (JDict kvs) k d = Inr (case map_of kvs k of None \<Rightarrow> d | Some v \<Rightarrow> v)"
| "py_get v k d = Inl AttributeError"

subsection \<open>The outside world and the result of a run\<close>

text \<open>
  The arguments of \<^verbatim>\<open>requests.post\<close> at lines 47-55. \<open>json_body\<close> is the value passed as
  \<^verbatim>\<open>json=\<close>, which the library serialises as the request body.
\<close>

record http_call =
  http_method :: string
  url :: string
  json_body :: json
  headers :: "(string \<times> string) list"
  timeout :: int

text \<open>
  What the program uses of a \<^verbatim>\<open>requests.Response\<close>: \<^verbatim>\<open>response.text\<close>, the outcome of
  \<^verbatim>\<open>response.raise_for_status()\<close> (\<open>Some e\<close>: it raises an \<^verbatim>\<open>HTTPError\<close> whose text is
  \<open>e\<close>) and the outcome of \<^verbatim>\<open>response.json()\<close> (\<open>Inl e\<close>: it raises a
  \<^verbatim>\<open>JSONDecodeError\<close> whose text is \<open>e\<close>). Which status codes make
  \<^verbatim>\<open>raise_for_status\<close> raise, and which bodies decode, is the library's business and is
  taken as given; \<open>status_code\<close> is carried for reference only, the program never reads it.
\<close>

record response =
  status_code :: int
  resp_text :: string
  resp_raise_for_status :: "string option"
  resp_json :: "string + json"

text \<open>
  Everything \<^verbatim>\<open>main\<close> reads from outside: the process environment (\<^verbatim>\<open>os.getenv\<close>), the
  answer of \<^verbatim>\<open>requests.post\<close> to a call (\<open>Inl e\<close>: it raises a \<^verbatim>\<open>RequestException\<close>
  whose text is \<open>e\<close>), and the interpreter's \<^verbatim>\<open>repr\<close> of strings.

  The libraries are taken to fail only in the ways the program provides for: the call
  with a \<^verbatim>\<open>RequestException\<close>, the decoding with a \<^verbatim>\<open>json.JSONDecodeError\<close>. Printing
  is taken to succeed (stdout encodes every character printed).
\<close>

record world =
  environ :: "string \<Rightarrow> string option"
  requests_post :: "http_call \<Rightarrow> string + response"
  repr_str :: "string \<Rightarrow> string"

text \<open>
  How the process ends: \<^verbatim>\<open>main\<close> returns, \<^verbatim>\<open>sys.exit(n)\<close> is called, or an exception is
  not caught (the interpreter prints a traceback on stderr and exits with status 1).
\<close>

datatype outcome = Returned | SysExit int | Uncaught py_exception

fun exit_status :: "outcome \<Rightarrow> int" where
  "exit_status Returned = 0"
| "exit_status (SysExit n) = n"
| "exit_status (Uncaught ex) = 1"

text \<open>A run: the argument of each \<^verbatim>\<open>print\<close> call in order, the calls of
  \<^verbatim>\<open>requests.post\<close> in order, and how the process ended.\<close>

record run =
  stdout :: "string list"
  requests_sent :: "http_call list"
  ended :: outcome


subsection \<open>The text the program prints\<close>

text \<open>The emoji of the messages, as UTF-8: U+274C, U+2705, U+1F4AC, U+1F4A1, U+1F4CA.\<close>

definition cross_mark :: string where
  "cross_mark = [CHR 0xE2, CHR 0x9D, CHR 0x8C]"

definition check_mark :: string where
  "check_mark = [CHR 0xE2, CHR 0x9C, CHR 0x85]"

definition speech_balloon :: string where
  "speech_balloon = [CHR 0xF0, CHR 0x9F, CHR 0x92, CHR 0xAC]"

definition light_bulb :: string where
  "light_bulb = [CHR 0xF0, CHR 0x9F, CHR 0x92, CHR 0xA1]"

definition bar_chart :: string where
  "bar_chart = [CHR 0xF0, CHR 0x9F, CHR 0x93, CHR 0x8A]"

definition apostrophe :: string where
  "apostrophe = [CHR 0x27]"

text \<open>Line 74.\<close>

definition success_banner :: string where
  "success_banner = check_mark @ '' Chat Response:''"

text \<open>Lines 22-27: what is printed, and the exit, when the API key is missing.\<close>

definition missing_key_run :: run where
  "missing_key_run =
     \<lparr>stdout =
        [cross_mark @ '' Error: UNIROUTE_API_KEY environment variable is required'',
         [],
         ''Get your API key:'',
         ''  1. Run: uniroute keys create'',
         ''  2. Export: export UNIROUTE_API_KEY='' @ apostrophe @ ''ur_your_key_here'' @ apostrophe],
      requests_sent = [],
      ended = SysExit 1\<rparr>"

subsection \<open>The program\<close>

text \<open>\<^verbatim>\<open>os.getenv(name, dflt)\<close>.\<close>

definition getenv_default :: "world \<Rightarrow> string \<Rightarrow> string \<Rightarrow> string" where
  "getenv_default w name dflt = (case environ w name of None \<Rightarrow> dflt | Some v \<Rightarrow> v)"

text \<open>Line 30.\<close>

definition api_url :: "world \<Rightarrow> string" where
  "api_url w = getenv_default w ''UNIROUTE_API_URL'' ''http://localhost:8084''"

text \<open>Lines 33-43.\<close>

definition request_data :: json where
  "request_data =
     JDict
       [(''model'', JStr ''gpt-4''),
        (''messages'',
           JList
             [JDict
                [(''role'', JStr ''user''),
                 (''content'', JStr ''Hello! Explain what UniRoute is in one sentence.'')]]),
        (''temperature'', JFloat ''0.7''),
        (''max_tokens'', JInt 100)]"

text \<open>Lines 47-55: the one call of \<^verbatim>\<open>requests.post\<close>.\<close>

definition chat_call :: "string \<Rightarrow> string \<Rightarrow> http_call" where
  "chat_call base api_key =
     \<lparr>http_method = ''POST'',
      url = base @ ''/v1/chat'',
      json_body = request_data,
      headers =
        [(''Content-Type'', ''application/json''),
         (''Authorization'', ''Bearer '' @ api_key)],
      timeout = 30\<rparr>"

text \<open>Lines 46-57, the body of the first \<^verbatim>\<open>try\<close>: \<open>Inl e\<close> when \<^verbatim>\<open>requests.post\<close> or
  \<^verbatim>\<open>raise_for_status\<close> raises a \<^verbatim>\<open>RequestException\<close> whose text is \<open>e\<close>.\<close>

definition send_request :: "world \<Rightarrow> http_call \<Rightarrow> string + response" where
  "send_request w c =
     (case requests_post w c of
        Inl e \<Rightarrow> Inl e
      | Inr response \<Rightarrow>
          (case resp_raise_for_status response of
             Some e \<Rightarrow> Inl e
           | None \<Rightarrow> Inr response))"

text \<open>Lines 58-63, the handler of the first \<^verbatim>\<open>try\<close>.\<close>

definition transport_error_lines :: "string \<Rightarrow> string list" where
  "transport_error_lines e =
     [cross_mark @ '' Error sending request: '' @ e] @
     (if str_contains ''Connection'' e
      then [[], light_bulb @ '' Make sure UniRoute server is running:'', ''  make dev'']
      else [])"

text \<open>Lines 69-70, the handler of the second \<^verbatim>\<open>try\<close>.\<close>

definition decode_error_lines :: "string \<Rightarrow> string \<Rightarrow> string list" where
  "decode_error_lines e body =
     [cross_mark @ '' Error parsing response: '' @ e, ''Response: '' @ body]"

text \<open>Lines 76-79: the lines printed for the first choice, or the exception raised.
  The \<^verbatim>\<open>print\<close> is the last statement of the block, so a run that raises here has
  printed nothing in it.\<close>

definition message_lines :: "(string \<Rightarrow> string) \<Rightarrow> json \<Rightarrow> py_exception + string list" where
  "message_lines rs chat_response =
     and_then (py_contains chat_response ''choices'') (\<lambda>present.
       if present then
         and_then (subscript_str chat_response ''choices'') (\<lambda>choices.
         and_then (py_len choices) (\<lambda>n.
           if n > 0 then
             and_then (subscript_str chat_response ''choices'') (\<lambda>choices'.
             and_then (subscript_int choices' 0) (\<lambda>choice.
             and_then (py_get choice ''message'' (JDict [])) (\<lambda>message.
             and_then (py_get message ''content'' (JStr [])) (\<lambda>content.
               Inr [speech_balloon @ '' '' @ format_value rs content]))))
           else Inr []))
       else Inr [])"

text \<open>Lines 82-87: the line printed for the usage record, or the exception raised.\<close>

definition usage_line :: "(string \<Rightarrow> string) \<Rightarrow> json \<Rightarrow> json \<Rightarrow> json \<Rightarrow> string" where
  "usage_line rs prompt_tokens completion_tokens total_tokens =
     bar_chart @ '' Tokens: '' @ format_value rs prompt_tokens @ '' prompt + '' @
     format_value rs completion_tokens @ '' completion = '' @
     format_value rs total_tokens @ '' total''"

definition usage_lines :: "(string \<Rightarrow> string) \<Rightarrow> json \<Rightarrow> py_exception + string list" where
  "usage_lines rs chat_response =
     and_then (py_contains chat_response ''usage'') (\<lambda>present.
       if present then
         and_then (subscript_str chat_response ''usage'') (\<lambda>usage.
         and_then (py_get usage ''prompt_tokens'' (JInt 0)) (\<lambda>prompt_tokens.
         and_then (py_get usage ''completion_tokens'' (JInt 0)) (\<lambda>completion_tokens.
         and_then (py_get usage ''total_tokens'' (JInt 0)) (\<lambda>total_tokens.
           Inr [usage_line rs prompt_tokens completion_tokens total_tokens]))))
       else Inr [])"

text \<open>Lines 74-87: what is printed once the body is decoded, and how the run ends.\<close>

definition print_response :: "(string \<Rightarrow> string) \<Rightarrow> json \<Rightarrow> string list \<times> outcome" where
  "print_response rs chat_response =
     (case message_lines rs chat_response of
        Inl ex \<Rightarrow> ([success_banner, []], Uncaught ex)
      | Inr ms \<Rightarrow>
          (case usage_lines rs chat_response of
             Inl ex \<Rightarrow> ([success_banner, []] @ ms @ [[]], Uncaught ex)
           | Inr us \<Rightarrow> ([success_banner, []] @ ms @ [[]] @ us, Returned)))"

text \<open>Lines 18-87.\<close>

definition main :: "world \<Rightarrow> run" where
  "main w =
     (case environ w ''UNIROUTE_API_KEY'' of
        None \<Rightarrow> missing_key_run
      | Some api_key \<Rightarrow>
          if api_key = [] then missing_key_run
          else
            (let c = chat_call (api_url w) api_key in
             case send_request w c of
               Inl e \<Rightarrow>
                 \<lparr>stdout = transport_error_lines e, requests_sent = [c], ended = SysExit 1\<rparr>
             | Inr response \<Rightarrow>
                 (case resp_json response of
                    Inl e \<Rightarrow>
                      \<lparr>stdout = decode_error_lines e (resp_text response),
                       requests_sent = [c], ended = SysExit 1\<rparr>
                  | Inr chat_response \<Rightarrow>
                      \<lparr>stdout = fst (print_response (repr_str w) chat_response),
                       requests_sent = [c],
                       ended = snd (print_response (repr_str w) chat_response)\<rparr>)))"

subsection \<open>Kinds of printed lines\<close>



subsection \<open>Concrete worlds\<close>

text \<open>
  A world for running the program on concrete inputs: the given environment, an endpoint
  that gives the same answer to every call, and a \<^verbatim>\<open>repr\<close> that puts a string between
  apostrophes (Python's \<^verbatim>\<open>repr\<close> of a string of plain letters).
\<close>

definition stub_world :: "(string \<Rightarrow> string option) \<Rightarrow> string + response \<Rightarrow> world" where
  "stub_world env answer =
     \<lparr>environ = env,
      requests_post = (\<lambda>c. answer),
      repr_str = (\<lambda>s. apostrophe @ s @ apostrophe)\<rparr>"

text \<open>An environment that sets the API key and nothing else.\<close>

definition key_only :: "string \<Rightarrow> string option" where
  "key_only = (\<lambda>name. if name = ''UNIROUTE_API_KEY'' then Some ''ur_test'' else None)"

text \<open>A response with status 200 on which \<^verbatim>\<open>raise_for_status\<close> does not raise and whose
  body \<open>body\<close> decodes to \<open>v\<close>.\<close>

definition decoded_response :: "string \<Rightarrow> json \<Rightarrow> response" where
  "decoded_response body v =
     \<lparr>status_code = 200, resp_text = body, resp_raise_for_status = None, resp_json = Inr v\<rparr>"


section \<open>Properties\<close>

subsection \<open>The paths through \<open>main\<close>\<close>

text \<open>\<open>str_contains\<close> is the contiguous-sublist relation of the library.\<close>

lemma str_contains_sublist: "str_contains needle hay = sublist needle hay"
  by (induction hay) (auto simp: sublist_Cons_right)



lemma main_decoded:
  assumes "environ w ''UNIROUTE_API_KEY'' = Some api_key" and "api_key \<noteq> []"
    and "send_request w (chat_call (api_url w) api_key) = Inr r"
    and "resp_json r = Inr v"
  shows "main w =
           \<lparr>stdout = fst (print_response (repr_str w) v),
            requests_sent = [chat_call (api_url w) api_key],
            ended = snd (print_response (repr_str w) v)\<rparr>"
  using assms by (simp add: main_def)

lemma send_request_passed:
  assumes "requests_post w c = Inr r" and "resp_raise_for_status r = None"
  shows "send_request w c = Inr r"
  using assms by (simp add: send_request_def)









subsection \<open>Missing credential\<close>

text \<open>
  C1. Whenever \<^verbatim>\<open>UNIROUTE_API_KEY\<close> is unset or set to the empty string, the program
  prints the five remediation lines (the error, a blank line, and how to create and export
  a key), exits with status 1, and has called \<^verbatim>\<open>requests.post\<close> not once.
\<close>

theorem missing_credential_exits_without_request:
  assumes "environ w ''UNIROUTE_API_KEY'' = None \<or> environ w ''UNIROUTE_API_KEY'' = Some []"
  shows "stdout (main w) =
           [cross_mark @ '' Error: UNIROUTE_API_KEY environment variable is required'',
            [],
            ''Get your API key:'',
            ''  1. Run: uniroute keys create'',
            ''  2. Export: export UNIROUTE_API_KEY='' @ apostrophe @ ''ur_your_key_here'' @ apostrophe]
         \<and> requests_sent (main w) = []
         \<and> ended (main w) = SysExit 1
         \<and> exit_status (ended (main w)) \<noteq> 0"
  using assms by (auto simp: main_def missing_key_run_def)

theorem missing_credential_exits_without_request_witness:
  "environ (stub_world (\<lambda>name. None) (Inl ''unreachable'')) ''UNIROUTE_API_KEY'' = None
   \<and> stdout (main (stub_world (\<lambda>name. None) (Inl ''unreachable''))) =
       [cross_mark @ '' Error: UNIROUTE_API_KEY environment variable is required'',
        [],
        ''Get your API key:'',
        ''  1. Run: uniroute keys create'',
        ''  2. Export: export UNIROUTE_API_KEY='' @ apostrophe @ ''ur_your_key_here'' @ apostrophe]
   \<and> requests_sent (main (stub_world (\<lambda>name. None) (Inl ''unreachable''))) = []
   \<and> exit_status (ended (main (stub_world (\<lambda>name. None) (Inl ''unreachable'')))) = 1
   \<and> environ (stub_world (\<lambda>name. Some []) (Inl ''unreachable'')) ''UNIROUTE_API_KEY'' = Some []
   \<and> requests_sent (main (stub_world (\<lambda>name. Some []) (Inl ''unreachable''))) = []
   \<and> exit_status (ended (main (stub_world (\<lambda>name. Some []) (Inl ''unreachable'')))) = 1"
proof -
  let ?unset = "stub_world (\<lambda>name. None) (Inl ''unreachable'')"
  let ?empty = "stub_world (\<lambda>name. Some []) (Inl ''unreachable'')"
  have absent: "environ ?unset ''UNIROUTE_API_KEY'' = None"
    and blank: "environ ?empty ''UNIROUTE_API_KEY'' = Some []"
    by (simp_all add: stub_world_def)
  from missing_credential_exits_without_request [OF disjI1 [OF absent]]
    missing_credential_exits_without_request [OF disjI2 [OF blank]]
    absent blank
  show ?thesis by simp
qed

subsection \<open>Transport failure\<close>



subsection \<open>Decode failure\<close>



subsection \<open>Rendering a decoded object\<close>







subsection \<open>The request\<close>

text \<open>
  C6. In every world the program sends either no request at all, or exactly one: a POST to
  the endpoint followed by \<^verbatim>\<open>/v1/chat\<close>, with \<open>request_data\<close> as the JSON body, the
  headers \<^verbatim>\<open>Content-Type: application/json\<close> and \<^verbatim>\<open>Authorization: Bearer\<close> followed by the
  key, and the timeout 30; and in that case the key read from the environment is not
  empty.
\<close>

theorem every_request_is_one_authorised_post:
  "requests_sent (main w) = []
   \<or> (\<exists>api_key. environ w ''UNIROUTE_API_KEY'' = Some api_key \<and> api_key \<noteq> []
        \<and> requests_sent (main w) =
            [\<lparr>http_method = ''POST'',
              url = api_url w @ ''/v1/chat'',
              json_body = request_data,
              headers =
                [(''Content-Type'', ''application/json''),
                 (''Authorization'', ''Bearer '' @ api_key)],
              timeout = 30\<rparr>])"
proof (cases "environ w ''UNIROUTE_API_KEY''")
  case None
  then show ?thesis
    by (simp add: main_def missing_key_run_def)
next
  case (Some api_key)
  show ?thesis
  proof (cases "api_key = []")
    case True
    with Some show ?thesis
      by (simp add: main_def missing_key_run_def)
  next
    case False
    with Some have "requests_sent (main w) = [chat_call (api_url w) api_key]"
      by (simp add: main_def Let_def split: sum.splits)
    with Some False show ?thesis
      by (simp add: chat_call_def)
  qed
qed

theorem every_request_is_one_authorised_post_witness:
  "requests_sent (main (stub_world key_only (Inl ''timed out''))) =
     [\<lparr>http_method = ''POST'',
       url = ''http://localhost:8084/v1/chat'',
       json_body = request_data,
       headers =
         [(''Content-Type'', ''application/json''),
          (''Authorization'', ''Bearer ur_test'')],
       timeout = 30\<rparr>]
   \<and> requests_sent (main (stub_world (\<lambda>name. Some []) (Inl ''timed out''))) = []"
proof -
  let ?w = "stub_world key_only (Inl ''timed out'')"
  have key: "environ ?w ''UNIROUTE_API_KEY'' = Some ''ur_test''"
    by (simp add: stub_world_def key_only_def)
  have url: "api_url ?w = ''http://localhost:8084''"
    by (simp add: api_url_def getenv_default_def stub_world_def key_only_def)
  have sent: "requests_sent (main ?w) \<noteq> []"
    by (simp add: main_def Let_def send_request_def stub_world_def key_only_def)
  have none: "requests_sent (main (stub_world (\<lambda>name. Some []) (Inl ''timed out''))) = []"
    by (simp add: main_def stub_world_def missing_key_run_def)
  from every_request_is_one_authorised_post [of ?w] sent key url none
  show ?thesis by auto
qed

text \<open>
  C7. The request body is a constant: it has the model \<^verbatim>\<open>gpt-4\<close>, a list of exactly one
  message, of role \<^verbatim>\<open>user\<close> and with the fixed prompt, the temperature 0.7 and
  \<^verbatim>\<open>max_tokens\<close> 100, and no other member. It does not depend on the world, and building
  it cannot fail: in every world, every request sent carries it.
\<close>

theorem request_data_fixed:
  "py_get request_data ''model'' JNull = Inr (JStr ''gpt-4'')
   \<and> py_get request_data ''messages'' JNull =
       Inr (JList [JDict [(''role'', JStr ''user''),
                          (''content'', JStr ''Hello! Explain what UniRoute is in one sentence.'')]])
   \<and> py_get request_data ''temperature'' JNull = Inr (JFloat ''0.7'')
   \<and> py_get request_data ''max_tokens'' JNull = Inr (JInt 100)
   \<and> py_len request_data = Inr 4
   \<and> map json_body (requests_sent (main w)) =
       replicate (length (requests_sent (main w))) request_data"
proof -
  have "map json_body (requests_sent (main w)) =
          replicate (length (requests_sent (main w))) request_data"
    by (simp add: main_def missing_key_run_def chat_call_def Let_def
             split: option.splits sum.splits)
  then show ?thesis
    by (simp add: request_data_def)
qed

text \<open>
  C8. Whenever \<^verbatim>\<open>UNIROUTE_API_URL\<close> is unset, the endpoint is \<^verbatim>\<open>http://localhost:8084\<close>, and
  every request sent goes to \<^verbatim>\<open>http://localhost:8084/v1/chat\<close>. The lookup is a total
  function to strings: it has no failing outcome.
\<close>

theorem api_url_default:
  assumes "environ w ''UNIROUTE_API_URL'' = None"
  shows "api_url w = ''http://localhost:8084''
         \<and> map url (requests_sent (main w)) =
             replicate (length (requests_sent (main w))) ''http://localhost:8084/v1/chat''"
proof -
  from assms have base: "api_url w = ''http://localhost:8084''"
    by (simp add: api_url_def getenv_default_def)
  have "map url (requests_sent (main w)) =
          replicate (length (requests_sent (main w))) (api_url w @ ''/v1/chat'')"
    by (simp add: main_def missing_key_run_def chat_call_def Let_def
             split: option.splits sum.splits)
  with base show ?thesis by simp
qed

theorem api_url_default_witness:
  "environ (stub_world key_only (Inl ''timed out'')) ''UNIROUTE_API_URL'' = None
   \<and> api_url (stub_world key_only (Inl ''timed out'')) = ''http://localhost:8084''
   \<and> map url (requests_sent (main (stub_world key_only (Inl ''timed out'')))) =
       [''http://localhost:8084/v1/chat'']"
proof -
  let ?w = "stub_world key_only (Inl ''timed out'')"
  have unset: "environ ?w ''UNIROUTE_API_URL'' = None"
    by (simp add: stub_world_def key_only_def)
  have one: "length (requests_sent (main ?w)) = 1"
    by (simp add: main_def Let_def send_request_def stub_world_def key_only_def)
  from api_url_default [OF unset] unset one
  show ?thesis by simp
qed

subsection \<open>Determinism\<close>



subsection \<open>A decoded body that is not an object\<close>

text \<open>
  C10, as amended. Whenever the key is set and non-empty and the call returns a response
  that \<^verbatim>\<open>raise_for_status\<close> accepts: if the body decodes at all, the first two things
  printed are the success banner and a blank line; and if it decodes to null, a boolean or
  a number (the body \<^verbatim>\<open>5\<close>, say), that is all the program prints before the membership
  test \<^verbatim>\<open>"choices" in chat_response\<close> raises a \<^verbatim>\<open>TypeError\<close>, which is not caught: the exit
  status is not zero, and neither the parse-error line nor the raw body is printed.
\<close>

theorem scalar_body_raises_after_banner:
  assumes "environ w ''UNIROUTE_API_KEY'' = Some api_key" and "api_key \<noteq> []"
    and "requests_post w (chat_call (api_url w) api_key) = Inr r"
    and "resp_raise_for_status r = None"
    and "resp_json r = Inr v"
  shows "take 2 (stdout (main w)) = [success_banner, []]
         \<and> (v = JNull \<or> (\<exists>b. v = JBool b) \<or> (\<exists>i. v = JInt i) \<or> (\<exists>f. v = JFloat f) \<longrightarrow>
              py_contains v ''choices'' = Inl TypeError
              \<and> stdout (main w) = [success_banner, []]
              \<and> ended (main w) = Uncaught TypeError
              \<and> exit_status (ended (main w)) \<noteq> 0
              \<and> (\<forall>e. cross_mark @ '' Error parsing response: '' @ e \<notin> set (stdout (main w)))
              \<and> ''Response: '' @ resp_text r \<notin> set (stdout (main w)))"
proof -
  from assms(3,4) have "send_request w (chat_call (api_url w) api_key) = Inr r"
    by (rule send_request_passed)
  from main_decoded [OF assms(1,2) this assms(5)]
  have out: "stdout (main w) = fst (print_response (repr_str w) v)"
    and fin: "ended (main w) = snd (print_response (repr_str w) v)"
    by simp_all
  have banner: "take 2 (stdout (main w)) = [success_banner, []]"
    unfolding out by (simp add: print_response_def split: sum.splits)
  have scalar: "print_response (repr_str w) v = ([success_banner, []], Uncaught TypeError)"
    if "v = JNull \<or> (\<exists>b. v = JBool b) \<or> (\<exists>i. v = JInt i) \<or> (\<exists>f. v = JFloat f)"
    using that by (auto simp: print_response_def message_lines_def and_then_def)
  have apart: "cross_mark @ '' Error parsing response: '' @ e \<noteq> success_banner"
    "''Response: '' @ resp_text r \<noteq> success_banner" for e
    by (simp_all add: cross_mark_def success_banner_def check_mark_def)
  show ?thesis
    using banner scalar apart by (auto simp: out fin)
qed

theorem scalar_body_raises_after_banner_witness:
  "stdout (main (stub_world key_only (Inr (decoded_response ''5'' (JInt 5))))) =
     [success_banner, []]
   \<and> ended (main (stub_world key_only (Inr (decoded_response ''5'' (JInt 5))))) =
       Uncaught TypeError
   \<and> ''Response: 5'' \<notin> set (stdout (main (stub_world key_only (Inr (decoded_response ''5'' (JInt 5))))))"
proof -
  let ?r = "decoded_response ''5'' (JInt 5)"
  let ?w = "stub_world key_only (Inr ?r)"
  have key: "environ ?w ''UNIROUTE_API_KEY'' = Some ''ur_test''" "''ur_test'' \<noteq> []"
    by (simp_all add: stub_world_def key_only_def)
  have post: "requests_post ?w (chat_call (api_url ?w) ''ur_test'') = Inr ?r"
    by (simp add: stub_world_def)
  have resp: "resp_raise_for_status ?r = None" "resp_json ?r = Inr (JInt 5)" "resp_text ?r = ''5''"
    by (simp_all add: decoded_response_def)
  from scalar_body_raises_after_banner [OF key post resp(1,2)] resp(3)
  show ?thesis by (simp add: success_banner_def check_mark_def)
qed

text \<open>The body \<^verbatim>\<open>5\<close>: the banner is printed before the exception.\<close>

theorem scalar_body_banner_counterexample:
  "ended (main (stub_world key_only (Inr (decoded_response ''5'' (JInt 5))))) = Uncaught TypeError
   \<and> success_banner \<in> set (stdout (main (stub_world key_only (Inr (decoded_response ''5'' (JInt 5))))))"
  by (simp add: main_def Let_def send_request_def stub_world_def key_only_def
        decoded_response_def print_response_def message_lines_def and_then_def)

end
